theory Spec2Isabelle
  imports Main "HOL-Library.Sublist" "HOL-Library.AList" "HOL-Library.Word"
    "HOL-Library.Monad_Syntax"
begin

section \<open>Partition names (package common)\<close>

text \<open>
  Go strings are byte sequences; they are modelled as \<^typ>\<open>string\<close>.
  \<^verbatim>\<open>strings.HasPrefix(s, p)\<close> is \<^const>\<open>prefix\<close> with the arguments swapped,
  \<^verbatim>\<open>strings.Index(s, "]")\<close> is the position of the first occurrence of the byte, or -1.
\<close>

definition HasPrefix :: "string \<Rightarrow> string \<Rightarrow> bool" where
  "HasPrefix s p = prefix p s"

definition Index :: "string \<Rightarrow> char \<Rightarrow> int" where
  "Index s c = (if c \<in> set s then int (length (takeWhile (\<lambda>x. x \<noteq> c) s)) else -1)"

text \<open>The slice expression \<^verbatim>\<open>s[lo:hi]\<close>, used by the source only with \<open>0 \<le> lo \<le> hi \<le> len(s)\<close>.\<close>

definition slice :: "string \<Rightarrow> nat \<Rightarrow> nat \<Rightarrow> string" where
  "slice s lo hi = take (hi - lo) (drop lo s)"

definition GetNormalizedPartitionName :: "string \<Rightarrow> string \<Rightarrow> string" where
  "GetNormalizedPartitionName partitionName rmID =
     (let partitionName = (if partitionName = [] then ''default'' else partitionName)
      in if HasPrefix partitionName ''['' then partitionName
         else ''['' @ rmID @ '']'' @ partitionName)"

definition GetRMIdFromPartitionName :: "string \<Rightarrow> string" where
  "GetRMIdFromPartitionName partitionName =
     (let idx = Index partitionName CHR '']''
      in if idx > 0 then slice partitionName 1 (nat idx) else [])"

definition GetPartitionNameWithoutClusterID :: "string \<Rightarrow> string" where
  "GetPartitionNameWithoutClusterID partitionName =
     (let idx = Index partitionName CHR '']''
      in if idx > 0 then drop (nat (idx + 1)) partitionName else partitionName)"

section \<open>Application state machine (package objects)\<close>

text \<open>
  The application events and states with their \<^verbatim>\<open>String()\<close> methods. The state machine
  itself is an \<^verbatim>\<open>fsm.FSM\<close> of the library looplab/fsm (v0.1.0 in go.mod), which works on the
  names of events and states.
\<close>

datatype applicationEvent =
  RunApplication | WaitApplication | RejectApplication
  | CompleteApplication | KillApplication | DeleteApplication

fun applicationEvent_String :: "applicationEvent \<Rightarrow> string" where
  "applicationEvent_String RunApplication = ''RunApplication''"
| "applicationEvent_String WaitApplication = ''WaitApplication''"
| "applicationEvent_String RejectApplication = ''RejectApplication''"
| "applicationEvent_String CompleteApplication = ''CompleteApplication''"
| "applicationEvent_String KillApplication = ''KillApplication''"
| "applicationEvent_String DeleteApplication = ''DeleteApplication''"

datatype applicationState =
  New | Accepted | Starting | Running | Waiting | Rejected | Completed | killed | Deleting

fun applicationState_String :: "applicationState \<Rightarrow> string" where
  "applicationState_String New = ''New''"
| "applicationState_String Accepted = ''Accepted''"
| "applicationState_String Starting = ''Starting''"
| "applicationState_String Running = ''Running''"
| "applicationState_String Waiting = ''Waiting''"
| "applicationState_String Rejected = ''Rejected''"
| "applicationState_String Completed = ''Completed''"
| "applicationState_String killed = ''killed''"
| "applicationState_String Deleting = ''Deleting''"

text \<open>
  The part of looplab/fsm that decides the current state. \<^verbatim>\<open>NewFSM\<close> stores one table entry
  \<^verbatim>\<open>transitions[eKey{e.Name, src}] = e.Dst\<close> for every source state of every event description,
  in the order of the list. \<^verbatim>\<open>Event\<close> looks the pair (event, current state) up:
  without an entry it returns \<^verbatim>\<open>InvalidEventError\<close> when the event occurs in the table at all
  and \<^verbatim>\<open>UnknownEventError\<close> otherwise; with an entry for the current state itself it returns
  \<^verbatim>\<open>NoTransitionError\<close>; otherwise it moves to the destination and returns nil.
  The callbacks that \<^verbatim>\<open>NewAppState\<close> registers (\<^verbatim>\<open>enter_state\<close>, \<^verbatim>\<open>enter_<STATE>\<close>,
  \<^verbatim>\<open>leave_<STATE>\<close>) log, count metrics and set or clear the state timer; none of them
  cancels a transition, so they are not part of the state that is modelled here.
\<close>

record EventDesc =
  Name :: string
  Src :: "string list"
  Dst :: string

type_synonym eKey = "string \<times> string"

record FSM =
  current :: string
  transitions :: "eKey \<rightharpoonup> string"

datatype fsm_error =
  InvalidEventError string string | UnknownEventError string | NoTransitionError

definition NewFSM :: "string \<Rightarrow> EventDesc list \<Rightarrow> FSM" where
  "NewFSM initial events =
     \<lparr>current = initial,
      transitions =
        fold (\<lambda>e m. fold (\<lambda>src m. m((Name e, src) \<mapsto> Dst e)) (Src e) m) events Map.empty\<rparr>"

definition Event :: "FSM \<Rightarrow> string \<Rightarrow> fsm_error option \<times> FSM" where
  "Event f event =
     (case transitions f (event, current f) of
        None \<Rightarrow>
          (if \<exists>ekey \<in> dom (transitions f). fst ekey = event
           then (Some (InvalidEventError event (current f)), f)
           else (Some (UnknownEventError event), f))
      | Some dst \<Rightarrow>
          (if current f = dst then (Some NoTransitionError, f)
           else (None, f\<lparr>current := dst\<rparr>)))"

text \<open>The table of \<^verbatim>\<open>NewAppState\<close>, entry by entry as in the source.\<close>

definition NewAppState :: FSM where
  "NewAppState = NewFSM (applicationState_String New)
     [\<lparr>Name = applicationEvent_String RejectApplication,
       Src = [applicationState_String New],
       Dst = applicationState_String Rejected\<rparr>,
      \<lparr>Name = applicationEvent_String RunApplication,
       Src = [applicationState_String New],
       Dst = applicationState_String Accepted\<rparr>,
      \<lparr>Name = applicationEvent_String RunApplication,
       Src = [applicationState_String Accepted],
       Dst = applicationState_String Starting\<rparr>,
      \<lparr>Name = applicationEvent_String RunApplication,
       Src = [applicationState_String Running, applicationState_String Starting,
              applicationState_String Waiting],
       Dst = applicationState_String Running\<rparr>,
      \<lparr>Name = applicationEvent_String CompleteApplication,
       Src = [applicationState_String Running, applicationState_String Starting,
              applicationState_String Waiting],
       Dst = applicationState_String Completed\<rparr>,
      \<lparr>Name = applicationEvent_String WaitApplication,
       Src = [applicationState_String Accepted, applicationState_String Running,
              applicationState_String Starting],
       Dst = applicationState_String Waiting\<rparr>,
      \<lparr>Name = applicationEvent_String KillApplication,
       Src = [applicationState_String Accepted, applicationState_String killed,
              applicationState_String New, applicationState_String Running,
              applicationState_String Starting, applicationState_String Waiting],
       Dst = applicationState_String killed\<rparr>,
      \<lparr>Name = applicationEvent_String DeleteApplication,
       Src = [applicationState_String Completed],
       Dst = applicationState_String Deleting\<rparr>]"

text \<open>
  The transition table as the specification lists it (From, Event, To), read row by row;
  \<open>None\<close> where no row matches. The state the specification calls Killed is the constant
  \<open>killed\<close> of the source.
\<close>

definition spec_transition :: "applicationState \<Rightarrow> applicationEvent \<Rightarrow> applicationState option" where
  "spec_transition s e =
     (case e of
        RejectApplication \<Rightarrow> (if s = New then Some Rejected else None)
      | RunApplication \<Rightarrow>
          (if s = New then Some Accepted
           else if s = Accepted then Some Starting
           else if s \<in> {Starting, Running, Waiting} then Some Running
           else None)
      | CompleteApplication \<Rightarrow>
          (if s \<in> {Starting, Running, Waiting} then Some Completed else None)
      | WaitApplication \<Rightarrow>
          (if s \<in> {Accepted, Starting, Running} then Some Waiting else None)
      | KillApplication \<Rightarrow>
          (if s \<in> {Accepted, New, Starting, Running, Waiting, killed} then Some killed else None)
      | DeleteApplication \<Rightarrow> (if s = Completed then Some Deleting else None))"

text \<open>An application whose state machine is in state \<open>s\<close>.\<close>

definition app_in_state :: "applicationState \<Rightarrow> FSM" where
  "app_in_state s = NewAppState\<lparr>current := applicationState_String s\<rparr>"

section \<open>Resources (package resources)\<close>

text \<open>
  Modelled from the spec: the package \<^verbatim>\<open>resources\<close> (the type \<^verbatim>\<open>Resource\<close> and its operations
  \<^verbatim>\<open>Add\<close>, \<^verbatim>\<open>AddTo\<close>, \<^verbatim>\<open>SubErrorNegative\<close>, \<^verbatim>\<open>Multiply\<close>, \<^verbatim>\<open>FitIn\<close>, \<^verbatim>\<open>IsZero\<close>,
  \<^verbatim>\<open>StrictlyGreaterThanZero\<close>) is used by the scheduler sources but is not among them.
  A resource is a mapping from resource-type name to an integer quantity. Arithmetic is
  component-wise and a type missing in one operand counts as 0; \<open>FitIn a b\<close> holds when for
  every type present in \<open>b\<close> the quantity of \<open>a\<close> (0 when absent) is at least that of \<open>b\<close>;
  \<open>StrictlyGreaterThanZero\<close> holds when at least one type is positive and none is negative;
  \<open>SubErrorNegative\<close> reports an error when a component would go negative and clamps that
  component at zero.
\<close>

type_synonym Resource = "string \<rightharpoonup> int"

definition quantity :: "Resource \<Rightarrow> string \<Rightarrow> int" where
  "quantity r k = (case r k of None \<Rightarrow> 0 | Some v \<Rightarrow> v)"

definition NewResource :: Resource where
  "NewResource = Map.empty"

definition Add :: "Resource \<Rightarrow> Resource \<Rightarrow> Resource" where
  "Add left right =
     (\<lambda>k. if left k = None \<and> right k = None then None
          else Some (quantity left k + quantity right k))"

definition Sub :: "Resource \<Rightarrow> Resource \<Rightarrow> Resource" where
  "Sub left right =
     (\<lambda>k. if left k = None \<and> right k = None then None
          else Some (quantity left k - quantity right k))"

datatype resource_error = NegativeResult

definition SubErrorNegative :: "Resource \<Rightarrow> Resource \<Rightarrow> Resource \<times> resource_error option" where
  "SubErrorNegative left right =
     (let res = Sub left right
      in (\<lambda>k. map_option (max 0) (res k),
          if \<exists>k \<in> dom res. quantity res k < 0 then Some NegativeResult else None))"

definition Multiply :: "Resource \<Rightarrow> int \<Rightarrow> Resource" where
  "Multiply base ratio = (\<lambda>k. map_option (\<lambda>v. v * ratio) (base k))"

definition FitIn :: "Resource \<Rightarrow> Resource \<Rightarrow> bool" where
  "FitIn larger smaller = (\<forall>k \<in> dom smaller. quantity smaller k \<le> quantity larger k)"

definition IsZero :: "Resource \<Rightarrow> bool" where
  "IsZero r = (\<forall>k \<in> dom r. quantity r k = 0)"

definition StrictlyGreaterThanZero :: "Resource \<Rightarrow> bool" where
  "StrictlyGreaterThanZero r =
     ((\<exists>k \<in> dom r. 0 < quantity r k) \<and> (\<forall>k \<in> dom r. \<not> quantity r k < 0))"

section \<open>Scheduling node (package scheduler)\<close>

text \<open>
  Modelled from the spec: \<^verbatim>\<open>cache.NodeInfo\<close>, the confirmed view of a node, is used through
  \<^verbatim>\<open>IsSchedulable\<close>, \<^verbatim>\<open>GetAvailableResource\<close> and \<^verbatim>\<open>FitInNode\<close> and is not among the sources.
  It holds the node's total capacity, its available resource (capacity less occupied and
  confirmed allocations) and the schedulable flag. \<^verbatim>\<open>GetAvailableResource\<close> hands out a fresh
  value, so that the \<^verbatim>\<open>AddTo\<close> of the callers works on their own copy; \<^verbatim>\<open>FitInNode\<close>
  compares with the capacity (a reserved node must have capacity for the reserved ask).
\<close>

record NodeInfo =
  ni_NodeID :: string
  totalResource :: Resource
  availableResource :: Resource
  schedulable :: bool

definition IsSchedulable :: "NodeInfo \<Rightarrow> bool" where
  "IsSchedulable ni = schedulable ni"

definition GetAvailableResource :: "NodeInfo \<Rightarrow> Resource" where
  "GetAvailableResource ni = availableResource ni"

definition FitInNode :: "NodeInfo \<Rightarrow> Resource \<Rightarrow> bool" where
  "FitInNode ni resRequest = FitIn (totalResource ni) resRequest"

text \<open>
  Modelled from the spec: the application and the ask as far as the node reads them (the
  application ID, the allocation key and the required resource), and the reservation with its
  canonical key \<open>appID|askKey[|nodeID]\<close>; \<^verbatim>\<open>newReservation\<close> and \<^verbatim>\<open>reservationKey\<close> are not among
  the sources. Both yield nothing when the application or the ask is nil, which is the case
  the node guards against. Pointers that may be nil are options.
\<close>

record schedulingAllocationAsk =
  ask_AllocationKey :: string
  ask_ApplicationID :: string
  ask_AllocatedResource :: Resource
  pendingRepeatAsk :: int

record reservation =
  r_nodeID :: "string option"
  r_appID :: string
  r_askKey :: string

definition reservationKey :: "string option \<Rightarrow> string option \<Rightarrow> schedulingAllocationAsk option \<Rightarrow> string" where
  "reservationKey node app ask =
     (case (app, ask) of
        (Some appID, Some a) \<Rightarrow>
          (case node of
             None \<Rightarrow> appID @ ''|'' @ ask_AllocationKey a
           | Some nodeID \<Rightarrow> appID @ ''|'' @ ask_AllocationKey a @ ''|'' @ nodeID)
      | _ \<Rightarrow> [])"

definition newReservation :: "string option \<Rightarrow> string option \<Rightarrow> schedulingAllocationAsk option \<Rightarrow> reservation option" where
  "newReservation node app ask =
     (case (app, ask) of
        (Some appID, Some a) \<Rightarrow>
          Some \<lparr>r_nodeID = node, r_appID = appID, r_askKey = ask_AllocationKey a\<rparr>
      | _ \<Rightarrow> None)"

definition getKey :: "reservation \<Rightarrow> string" where
  "getKey r =
     (case r_nodeID r of
        None \<Rightarrow> r_appID r @ ''|'' @ r_askKey r
      | Some nodeID \<Rightarrow> r_appID r @ ''|'' @ r_askKey r @ ''|'' @ nodeID)"

text \<open>
  The scheduling node of the source. The map of reservations is an association list with
  distinct keys: the source ranges over it, and Go fixes no order for that, so the order of the
  list stands for whatever order the loop takes. \<^verbatim>\<open>cachedAvailable\<close> is nil until it is first
  computed. The methods take the node and return it as they leave it; the locks are not modelled.
\<close>

record schedulingNode =
  sn_NodeID :: string
  nodeInfo :: NodeInfo
  sn_allocating :: Resource
  sn_preempting :: Resource
  cachedAvailable :: "Resource option"
  cachedAvailableUpdateNeeded :: bool
  reservations :: "(string \<times> reservation) list"

datatype node_error =
  NodeAlreadyReserved string
  | ReservationCreationFailed string
  | ReservationDoesNotFit string string
  | ReservationKeyFailed string

definition newSchedulingNode :: "NodeInfo option \<Rightarrow> schedulingNode option" where
  "newSchedulingNode info =
     (case info of
        None \<Rightarrow> None
      | Some i \<Rightarrow>
          Some \<lparr>sn_NodeID = ni_NodeID i, nodeInfo = i, sn_allocating = NewResource,
                sn_preempting = NewResource, cachedAvailable = None,
                cachedAvailableUpdateNeeded = True, reservations = []\<rparr>)"

definition getAllocatingResource :: "schedulingNode \<Rightarrow> Resource" where
  "getAllocatingResource sn = sn_allocating sn"

definition incAllocatingResource :: "schedulingNode \<Rightarrow> Resource \<Rightarrow> schedulingNode" where
  "incAllocatingResource sn delta =
     sn\<lparr>cachedAvailableUpdateNeeded := True, sn_allocating := Add (sn_allocating sn) delta\<rparr>"

text \<open>The error of \<^verbatim>\<open>SubErrorNegative\<close> is only logged; the returned resource is stored.\<close>

definition decAllocatingResource :: "schedulingNode \<Rightarrow> Resource \<Rightarrow> schedulingNode" where
  "decAllocatingResource sn delta =
     sn\<lparr>cachedAvailableUpdateNeeded := True,
        sn_allocating := fst (SubErrorNegative (sn_allocating sn) delta)\<rparr>"

definition allocateResource :: "schedulingNode \<Rightarrow> Resource \<Rightarrow> bool \<Rightarrow> bool \<times> schedulingNode" where
  "allocateResource sn res preemptionPhase =
     (let available = GetAvailableResource (nodeInfo sn);
          newAllocating = Add res (sn_allocating sn);
          available = (if preemptionPhase then Add available (sn_preempting sn) else available)
      in if FitIn available newAllocating
         then (True, sn\<lparr>cachedAvailableUpdateNeeded := True, sn_allocating := newAllocating\<rparr>)
         else (False, sn))"

definition preAllocateCheck :: "schedulingNode \<Rightarrow> Resource \<Rightarrow> bool \<Rightarrow> bool \<times> schedulingNode" where
  "preAllocateCheck sn res preemptionPhase =
     (if \<not> IsSchedulable (nodeInfo sn) then (False, sn)
      else if \<not> StrictlyGreaterThanZero res then (False, sn)
      else
        let available = GetAvailableResource (nodeInfo sn);
            available = (if preemptionPhase then Add available (sn_preempting sn) else available);
            newAllocating = Add res (getAllocatingResource sn)
        in if \<not> FitIn available newAllocating then (False, sn) else (True, sn))"

definition isReserved :: "schedulingNode \<Rightarrow> bool" where
  "isReserved sn = (length (reservations sn) > 0)"

text \<open>The range loop of \<^verbatim>\<open>isReservedForApp\<close> over the reservation keys, with its early return.\<close>

fun isReservedForApp_loop :: "string list \<Rightarrow> string \<Rightarrow> bool" where
  "isReservedForApp_loop [] appID = False"
| "isReservedForApp_loop (key # keys) appID =
     (if HasPrefix key appID then True else isReservedForApp_loop keys appID)"

definition isReservedForApp :: "schedulingNode \<Rightarrow> string \<Rightarrow> bool" where
  "isReservedForApp sn appID =
     (if appID = [] then False
      else isReservedForApp_loop (map fst (reservations sn)) appID)"

text \<open>
  \<^verbatim>\<open>reserve\<close> returns the pair (ok, error) and the node. The application is passed by its
  ID (all that the node reads of it), nil as \<open>None\<close>. A reservation is only created for an ask
  that is not nil, so the inner nil case of the ask is never taken.
\<close>

definition reserve ::
  "schedulingNode \<Rightarrow> string option \<Rightarrow> schedulingAllocationAsk option
     \<Rightarrow> (bool \<times> node_error option) \<times> schedulingNode" where
  "reserve sn app ask =
     (if length (reservations sn) > 0
      then ((False, Some (NodeAlreadyReserved (sn_NodeID sn))), sn)
      else
        (case newReservation None app ask of
           None \<Rightarrow> ((False, Some (ReservationCreationFailed (sn_NodeID sn))), sn)
         | Some appReservation \<Rightarrow>
             (case ask of
                None \<Rightarrow> ((False, Some (ReservationCreationFailed (sn_NodeID sn))), sn)
              | Some a \<Rightarrow>
                  if \<not> FitInNode (nodeInfo sn) (ask_AllocatedResource a)
                  then ((False, Some (ReservationDoesNotFit (sn_NodeID sn) (r_appID appReservation))), sn)
                  else ((True, None),
                        sn\<lparr>reservations :=
                             AList.update (getKey appReservation) appReservation
                               (reservations sn)\<rparr>))))"

definition unReserve ::
  "schedulingNode \<Rightarrow> string option \<Rightarrow> schedulingAllocationAsk option
     \<Rightarrow> (bool \<times> node_error option) \<times> schedulingNode" where
  "unReserve sn app ask =
     (let resKey = reservationKey None app ask
      in if resKey = [] then ((False, Some (ReservationKeyFailed (sn_NodeID sn))), sn)
         else if map_of (reservations sn) resKey \<noteq> None
         then ((True, None), sn\<lparr>reservations := AList.delete resKey (reservations sn)\<rparr>)
         else ((False, None), sn))"

text \<open>A node, an ask and their values for the concrete cases below.\<close>

definition example_nodeInfo :: NodeInfo where
  "example_nodeInfo =
     \<lparr>ni_NodeID = ''node-1'', totalResource = [''memory'' \<mapsto> 100],
      availableResource = [''memory'' \<mapsto> 20], schedulable = True\<rparr>"

definition example_node :: schedulingNode where
  "example_node =
     \<lparr>sn_NodeID = ''node-1'', nodeInfo = example_nodeInfo, sn_allocating = NewResource,
      sn_preempting = NewResource, cachedAvailable = None,
      cachedAvailableUpdateNeeded = True, reservations = []\<rparr>"

definition example_ask :: "string \<Rightarrow> int \<Rightarrow> schedulingAllocationAsk" where
  "example_ask appID mem =
     \<lparr>ask_AllocationKey = ''ask-1'', ask_ApplicationID = appID,
      ask_AllocatedResource = [''memory'' \<mapsto> mem], pendingRepeatAsk = 1\<rparr>"

section \<open>Configuration loader (package configs)\<close>

text \<open>
  \<^verbatim>\<open>LoadSchedulerConfigFromByteArray\<close> parses the bytes, validates the result and stores a
  checksum. Of the configuration only the checksum matters here; the partitions are kept
  abstract. \<^verbatim>\<open>yaml.Unmarshal\<close> and \<^verbatim>\<open>Validate\<close> are not among the sources and are parameters:
  \<open>unmarshal\<close> returns an error or the parsed configuration, \<open>validate\<close> returns an error or
  nothing.
\<close>

type_synonym byte = "8 word"

record 'p SchedulerConfig =
  Partitions :: 'p
  Checksum :: "byte list"

text \<open>
  A \<^verbatim>\<open>hash.Hash\<close> of the Go library, as \<^verbatim>\<open>sha256.New()\<close> returns it: its state is the
  sequence of bytes written to it. \<^verbatim>\<open>Write(p)\<close> adds \<open>p\<close> to that sequence. \<^verbatim>\<open>Sum(b)\<close>
  appends the digest of the bytes written so far to the slice \<open>b\<close> and returns the result;
  it does not write \<open>b\<close> to the hash. The digest function (SHA-256) is the parameter
  \<open>digest\<close>.
\<close>

record hash_state =
  written :: "byte list"

definition sha256_New :: hash_state where
  "sha256_New = \<lparr>written = []\<rparr>"

definition hash_Write :: "hash_state \<Rightarrow> byte list \<Rightarrow> hash_state" where
  "hash_Write h p = h\<lparr>written := written h @ p\<rparr>"

definition hash_Sum :: "(byte list \<Rightarrow> byte list) \<Rightarrow> hash_state \<Rightarrow> byte list \<Rightarrow> byte list" where
  "hash_Sum digest h b = b @ digest (written h)"

definition LoadSchedulerConfigFromByteArray ::
  "(byte list \<Rightarrow> 'e + 'p SchedulerConfig) \<Rightarrow> ('p SchedulerConfig \<Rightarrow> 'e option)
     \<Rightarrow> (byte list \<Rightarrow> byte list) \<Rightarrow> byte list \<Rightarrow> 'e + 'p SchedulerConfig" where
  "LoadSchedulerConfigFromByteArray unmarshal validate digest content =
     (case unmarshal content of
        Inl err \<Rightarrow> Inl err
      | Inr conf \<Rightarrow>
          (case validate conf of
             Some err \<Rightarrow> Inl err
           | None \<Rightarrow>
               let h = sha256_New
               in Inr (conf\<lparr>Checksum := hash_Sum digest h content\<rparr>)))"

section \<open>Application filters (package defaults)\<close>

text \<open>
  \<^verbatim>\<open>interfaces.Application\<close> as the filters read it: through \<^verbatim>\<open>CurrentState()\<close>,
  \<^verbatim>\<open>GetPendingResource()\<close> and \<^verbatim>\<open>GetSubmissionTime()\<close>. A \<^verbatim>\<open>time.Time\<close> is an instant on
  a line, modelled as an integer; \<^verbatim>\<open>t.After(u)\<close> is \<open>u < t\<close>.
\<close>

record Application =
  app_ApplicationID :: string
  CurrentState :: string
  PendingResource :: Resource
  SubmissionTime :: int

definition After :: "int \<Rightarrow> int \<Rightarrow> bool" where
  "After t u = (u < t)"

text \<open>
  The argument of the filters is a Go map from application ID to application. The filters
  range over it; Go fixes no order for that, so the map is an association list with distinct
  keys whose order stands for the order the loop takes.
\<close>

definition FilterOnPendingResources :: "(string \<times> Application) list \<Rightarrow> Application list" where
  "FilterOnPendingResources apps =
     fold (\<lambda>app filteredApps.
             if StrictlyGreaterThanZero (PendingResource app) then filteredApps @ [app]
             else filteredApps)
          (map snd apps) []"

text \<open>The local variables of \<^verbatim>\<open>StateAwareFilter\<close> and one round of its loop.\<close>

record filter_vars =
  filteredApps :: "Application list"
  acceptedApp :: "Application option"
  foundStarting :: bool

definition StateAwareFilter_body :: "Application \<Rightarrow> filter_vars \<Rightarrow> filter_vars" where
  "StateAwareFilter_body app v =
     (let v = (if CurrentState app = ''Starting''
               then v\<lparr>foundStarting := True, acceptedApp := None\<rparr> else v)
      in if StrictlyGreaterThanZero (PendingResource app)
         then
           if CurrentState app = ''Accepted''
           then
             if \<not> foundStarting v
                \<and> (case acceptedApp v of
                      None \<Rightarrow> True
                    | Some acc \<Rightarrow> After (SubmissionTime acc) (SubmissionTime app))
             then v\<lparr>acceptedApp := Some app\<rparr>
             else v
           else v\<lparr>filteredApps := filteredApps v @ [app]\<rparr>
         else v)"

definition StateAwareFilter :: "(string \<times> Application) list \<Rightarrow> Application list" where
  "StateAwareFilter apps =
     (let v = fold StateAwareFilter_body (map snd apps)
                \<lparr>filteredApps = [], acceptedApp = None, foundStarting = False\<rparr>
      in case acceptedApp v of
           None \<Rightarrow> filteredApps v
         | Some acc \<Rightarrow> filteredApps v @ [acc])"

text \<open>Applications for the concrete cases below.\<close>

definition example_app :: "string \<Rightarrow> string \<Rightarrow> int \<Rightarrow> Application" where
  "example_app appID state submitted =
     \<lparr>app_ApplicationID = appID, CurrentState = state,
      PendingResource = [''memory'' \<mapsto> 1], SubmissionTime = submitted\<rparr>"

section \<open>Partition scheduling context (package scheduler)\<close>

text \<open>
  Modelled from the spec: the scheduling queue and the scheduling application are not among
  the sources; \<^verbatim>\<open>confirmAllocation\<close> calls their \<^verbatim>\<open>decAllocatingResource\<close>, and the
  application's \<^verbatim>\<open>updateAskRepeat\<close> and \<^verbatim>\<open>GetSchedulingAllocationAsk\<close>.
  A queue has a name, its allocating resource and its parent; \<^verbatim>\<open>DecAllocatingResource\<close> is
  recursive to the root, and a decrement below zero is logged and the counter clamped at
  zero (the node's method of the source does the same through \<^verbatim>\<open>SubErrorNegative\<close>). The
  parent is held in the queue value, so the walk to the root is a structural recursion.
  An application has its ID, allocating and pending resources, the ledger of asks by
  allocation key and its queue; pending is the sum of ask resource times pending repeat.
  \<^verbatim>\<open>updateAskRepeat(key, delta)\<close> adjusts the pending repeat of the ask with that key and the
  pending resource with it; without such an ask it changes nothing and reports an error.
\<close>

datatype SchedulingQueue =
  SchedulingQueue (sq_Name: string) (sq_allocating: Resource) (sq_parent: "SchedulingQueue option")

fun sq_decAllocatingResource :: "SchedulingQueue \<Rightarrow> Resource \<Rightarrow> SchedulingQueue" where
  "sq_decAllocatingResource (SchedulingQueue name allocating parent) delta =
     SchedulingQueue name (fst (SubErrorNegative allocating delta))
       (map_option (\<lambda>p. sq_decAllocatingResource p delta) parent)"

record SchedulingApplication =
  sa_ApplicationID :: string
  sa_allocating :: Resource
  sa_pending :: Resource
  requests :: "string \<rightharpoonup> schedulingAllocationAsk"
  queue :: SchedulingQueue

datatype app_error = AskNotFound string

definition sa_decAllocatingResource :: "SchedulingApplication \<Rightarrow> Resource \<Rightarrow> SchedulingApplication" where
  "sa_decAllocatingResource sa delta =
     sa\<lparr>sa_allocating := fst (SubErrorNegative (sa_allocating sa) delta)\<rparr>"

definition updateAskRepeat ::
  "SchedulingApplication \<Rightarrow> string \<Rightarrow> int \<Rightarrow> (app_error + Resource) \<times> SchedulingApplication" where
  "updateAskRepeat sa allocKey delta =
     (case requests sa allocKey of
        None \<Rightarrow> (Inl (AskNotFound allocKey), sa)
      | Some ask \<Rightarrow>
          let deltaPendingResource = Multiply (ask_AllocatedResource ask) delta
          in (Inr deltaPendingResource,
              sa\<lparr>requests :=
                    (requests sa)(allocKey \<mapsto>
                       ask\<lparr>pendingRepeatAsk := pendingRepeatAsk ask + delta\<rparr>),
                 sa_pending := Add (sa_pending sa) deltaPendingResource\<rparr>))"

definition GetSchedulingAllocationAsk ::
  "SchedulingApplication \<Rightarrow> string \<Rightarrow> schedulingAllocationAsk option" where
  "GetSchedulingAllocationAsk sa allocKey = requests sa allocKey"

text \<open>
  The proposal (\<^verbatim>\<open>commonevents.AllocationProposal\<close>) with the fields that the partition reads,
  and the partition with its maps of applications and nodes. The maps hold pointers in the
  source: what a method changes in an application or a node is stored back under its key.
\<close>

record AllocationProposal =
  ap_NodeID :: string
  ap_ApplicationID :: string
  ap_QueueName :: string
  ap_AllocatedResource :: Resource
  ap_AllocationKey :: string

record partitionSchedulingContext =
  psc_Name :: string
  applications :: "string \<rightharpoonup> SchedulingApplication"
  nodes :: "string \<rightharpoonup> schedulingNode"

datatype partition_error =
  ApplicationRemoved string
  | NodeRemoved string string
  | AskRemoved string string
  | AppError app_error

definition confirmAllocation ::
  "partitionSchedulingContext \<Rightarrow> AllocationProposal \<Rightarrow> bool
     \<Rightarrow> partition_error option \<times> partitionSchedulingContext" where
  "confirmAllocation psc allocProposal confirm =
     (let appID = ap_ApplicationID allocProposal
      in case applications psc appID of
           None \<Rightarrow> (Some (ApplicationRemoved appID), psc)
         | Some app \<Rightarrow>
             let nodeID = ap_NodeID allocProposal
             in case nodes psc nodeID of
                  None \<Rightarrow> (Some (NodeRemoved appID nodeID), psc)
                | Some node \<Rightarrow>
                    let allocKey = ap_AllocationKey allocProposal;
                        delta = ap_AllocatedResource allocProposal;
                        (app, node) =
                          (if \<not> IsZero delta
                           then (let app = sa_decAllocatingResource app delta;
                                     app = app\<lparr>queue := sq_decAllocatingResource (queue app) delta\<rparr>
                                 in (app, decAllocatingResource node delta))
                           else (app, node))
                    in if \<not> confirm
                       then
                         (case updateAskRepeat app allocKey 1 of
                            (Inl err, app) \<Rightarrow>
                              (Some (AppError err),
                               psc\<lparr>applications := (applications psc)(appID \<mapsto> app),
                                   nodes := (nodes psc)(nodeID \<mapsto> node)\<rparr>)
                          | (Inr _, app) \<Rightarrow>
                              (None,
                               psc\<lparr>applications := (applications psc)(appID \<mapsto> app),
                                   nodes := (nodes psc)(nodeID \<mapsto> node)\<rparr>))
                       else if GetSchedulingAllocationAsk app allocKey = None
                       then (Some (AskRemoved appID allocKey),
                             psc\<lparr>applications := (applications psc)(appID \<mapsto> app),
                                 nodes := (nodes psc)(nodeID \<mapsto> node)\<rparr>)
                       else (None,
                             psc\<lparr>applications := (applications psc)(appID \<mapsto> app),
                                 nodes := (nodes psc)(nodeID \<mapsto> node)\<rparr>))"

text \<open>A partition with one application in queue \<open>root.a\<close> and one node, and a proposal.\<close>

definition example_queue :: "int \<Rightarrow> SchedulingQueue" where
  "example_queue mem =
     SchedulingQueue ''root.a'' [''memory'' \<mapsto> mem]
       (Some (SchedulingQueue ''root'' [''memory'' \<mapsto> mem] None))"

definition example_partition ::
  "int \<Rightarrow> (string \<rightharpoonup> schedulingAllocationAsk) \<Rightarrow> partitionSchedulingContext" where
  "example_partition mem asks =
     \<lparr>psc_Name = ''[rm-1]default'',
      applications =
        [''app-1'' \<mapsto>
           \<lparr>sa_ApplicationID = ''app-1'', sa_allocating = [''memory'' \<mapsto> mem],
            sa_pending = NewResource, requests = asks, queue = example_queue mem\<rparr>],
      nodes = [''node-1'' \<mapsto> example_node\<lparr>sn_allocating := [''memory'' \<mapsto> mem]\<rparr>]\<rparr>"

definition example_proposal :: AllocationProposal where
  "example_proposal =
     \<lparr>ap_NodeID = ''node-1'', ap_ApplicationID = ''app-1'', ap_QueueName = ''root.a'',
      ap_AllocatedResource = [''memory'' \<mapsto> 5], ap_AllocationKey = ''ask-1''\<rparr>"

section \<open>Sortable linked map (package maps)\<close>

text \<open>
  The map is a hash index from keys to entries and a doubly linked chain of the entries.
  Entries are objects that the map and their neighbours point to, so they live in a store
  that maps addresses to entries; a pointer is an address, or \<open>None\<close> for nil. \<open>allocated\<close>
  counts the entries created so far and gives the next new entry its address. The
  \<^verbatim>\<open>interface{}\<close> keys and values are a type of keys and a type of values.

  The functions that follow pointers return an option: \<open>None\<close> stands for a call that does not
  return a value, because a loop over the chain does not end or because an address is read
  that holds no entry.
\<close>

type_synonym ref = nat

record ('k, 'v) SortableLinkedMapEntry =
  e_key :: 'k
  e_value :: 'v
  e_pre :: "ref option"
  e_next :: "ref option"
  e_isMatched :: bool

record ('k, 'v) SortableLinkedMap =
  store :: "ref \<rightharpoonup> ('k, 'v) SortableLinkedMapEntry"
  allocated :: nat
  entries :: "'k \<rightharpoonup> ref"
  head :: "ref option"
  tail :: "ref option"
  firstMatchedEntry :: "ref option"
  compareFunc :: "('v \<Rightarrow> 'v \<Rightarrow> bool) option"
  matchFunc :: "('v \<Rightarrow> bool) option"

definition NewSortableLinkedMap ::
  "('v \<Rightarrow> 'v \<Rightarrow> bool) option \<Rightarrow> ('v \<Rightarrow> bool) option \<Rightarrow> ('k, 'v) SortableLinkedMap" where
  "NewSortableLinkedMap cmp m =
     \<lparr>store = Map.empty, allocated = 0, entries = Map.empty, head = None, tail = None,
      firstMatchedEntry = None, compareFunc = cmp, matchFunc = m\<rparr>"

text \<open>Assignments to the fields of the entry at an address.\<close>

definition set_value :: "('k, 'v) SortableLinkedMap \<Rightarrow> ref \<Rightarrow> 'v \<Rightarrow> ('k, 'v) SortableLinkedMap option" where
  "set_value slm r v =
     (case store slm r of
        None \<Rightarrow> None
      | Some e \<Rightarrow> Some (slm\<lparr>store := (store slm)(r \<mapsto> e\<lparr>e_value := v\<rparr>)\<rparr>))"

definition set_pre :: "('k, 'v) SortableLinkedMap \<Rightarrow> ref \<Rightarrow> ref option \<Rightarrow> ('k, 'v) SortableLinkedMap option" where
  "set_pre slm r p =
     (case store slm r of
        None \<Rightarrow> None
      | Some e \<Rightarrow> Some (slm\<lparr>store := (store slm)(r \<mapsto> e\<lparr>e_pre := p\<rparr>)\<rparr>))"

definition set_next :: "('k, 'v) SortableLinkedMap \<Rightarrow> ref \<Rightarrow> ref option \<Rightarrow> ('k, 'v) SortableLinkedMap option" where
  "set_next slm r n =
     (case store slm r of
        None \<Rightarrow> None
      | Some e \<Rightarrow> Some (slm\<lparr>store := (store slm)(r \<mapsto> e\<lparr>e_next := n\<rparr>)\<rparr>))"

definition set_isMatched :: "('k, 'v) SortableLinkedMap \<Rightarrow> ref \<Rightarrow> bool \<Rightarrow> ('k, 'v) SortableLinkedMap option" where
  "set_isMatched slm r b =
     (case store slm r of
        None \<Rightarrow> None
      | Some e \<Rightarrow> Some (slm\<lparr>store := (store slm)(r \<mapsto> e\<lparr>e_isMatched := b\<rparr>)\<rparr>))"

text \<open>The getters return the pair (key, value) of an entry, or \<open>None\<close> for (nil, nil).\<close>

definition getEntry :: "('k, 'v) SortableLinkedMap \<Rightarrow> ref option \<Rightarrow> ('k \<times> 'v) option option" where
  "getEntry slm entry =
     (case entry of
        Some r \<Rightarrow> do { e \<leftarrow> store slm r; Some (Some (e_key e, e_value e)) }
      | None \<Rightarrow> Some None)"

definition GetHead :: "('k, 'v) SortableLinkedMap \<Rightarrow> ('k \<times> 'v) option option" where
  "GetHead slm = getEntry slm (head slm)"

definition GetTail :: "('k, 'v) SortableLinkedMap \<Rightarrow> ('k \<times> 'v) option option" where
  "GetTail slm = getEntry slm (tail slm)"

definition GetFirstMatched :: "('k, 'v) SortableLinkedMap \<Rightarrow> ('k \<times> 'v) option option" where
  "GetFirstMatched slm =
     (case firstMatchedEntry slm of
        None \<Rightarrow> Some None
      | Some r \<Rightarrow> do { e \<leftarrow> store slm r; Some (Some (e_key e, e_value e)) })"

definition HasMatched :: "('k, 'v) SortableLinkedMap \<Rightarrow> bool" where
  "HasMatched slm = (firstMatchedEntry slm \<noteq> None)"

text \<open>
  The loop of \<^verbatim>\<open>findPreEntry\<close>. With \<open>isForward\<close> it follows the \<open>pre\<close> pointers while the
  new entry compares before the entry looked at, otherwise the \<open>next\<close> pointers.
\<close>

partial_function (option) findPreEntry_loop ::
  "('k, 'v) SortableLinkedMap \<Rightarrow> ('v \<Rightarrow> 'v \<Rightarrow> bool) \<Rightarrow> ref option \<Rightarrow> ref \<Rightarrow> bool
     \<Rightarrow> ref option option" where
  "findPreEntry_loop slm cmp lookupEntry newEntry isForward =
     (case lookupEntry of
        None \<Rightarrow> Some (if isForward then None else tail slm)
      | Some l \<Rightarrow>
          do {
            le \<leftarrow> store slm l;
            ne \<leftarrow> store slm newEntry;
            if isForward
            then
              if cmp (e_value ne) (e_value le)
              then findPreEntry_loop slm cmp (e_pre le) newEntry isForward
              else Some (Some l)
            else
              if cmp (e_value le) (e_value ne)
              then findPreEntry_loop slm cmp (e_next le) newEntry isForward
              else Some (e_pre le)
          })"

declare findPreEntry_loop.simps [code]

definition findPreEntry ::
  "('k, 'v) SortableLinkedMap \<Rightarrow> ref option \<Rightarrow> ref \<Rightarrow> bool \<Rightarrow> ref option option" where
  "findPreEntry slm fromEntry newEntry isForward =
     (case compareFunc slm of
        None \<Rightarrow> Some (tail slm)
      | Some cmp \<Rightarrow> findPreEntry_loop slm cmp fromEntry newEntry isForward)"

definition putIntoLinkedList ::
  "('k, 'v) SortableLinkedMap \<Rightarrow> ref option \<Rightarrow> ref \<Rightarrow> ('k, 'v) SortableLinkedMap option" where
  "putIntoLinkedList slm preEntry newEntry =
     do {
       slm \<leftarrow>
         (case preEntry of
            Some p \<Rightarrow>
              do {
                slm \<leftarrow> set_pre slm newEntry (Some p);
                pe \<leftarrow> store slm p;
                slm \<leftarrow> set_next slm newEntry (e_next pe);
                slm \<leftarrow> (case e_next pe of
                          Some n \<Rightarrow> set_pre slm n (Some newEntry)
                        | None \<Rightarrow> Some slm);
                set_next slm p (Some newEntry)
              }
          | None \<Rightarrow>
              (case head slm of
                 None \<Rightarrow> Some (slm\<lparr>head := Some newEntry\<rparr>)
               | Some h \<Rightarrow>
                   do {
                     slm \<leftarrow> set_pre slm h (Some newEntry);
                     slm \<leftarrow> set_next slm newEntry (Some h);
                     set_pre (slm\<lparr>head := Some newEntry\<rparr>) newEntry None
                   }));
       Some (if tail slm = preEntry then slm\<lparr>tail := Some newEntry\<rparr> else slm)
     }"

text \<open>The loop of \<^verbatim>\<open>findNextMatchedEntry\<close>, over the \<open>next\<close> pointers.\<close>

partial_function (option) findNextMatchedEntry_loop ::
  "('k, 'v) SortableLinkedMap \<Rightarrow> ref option \<Rightarrow> ref option option" where
  "findNextMatchedEntry_loop slm lookupEntry =
     (case lookupEntry of
        None \<Rightarrow> Some None
      | Some l \<Rightarrow>
          do {
            le \<leftarrow> store slm l;
            if e_isMatched le then Some (Some l)
            else findNextMatchedEntry_loop slm (e_next le)
          })"

declare findNextMatchedEntry_loop.simps [code]

definition findNextMatchedEntry :: "('k, 'v) SortableLinkedMap \<Rightarrow> ref option option" where
  "findNextMatchedEntry slm =
     (case firstMatchedEntry slm of
        None \<Rightarrow> Some None
      | Some f \<Rightarrow> do { fe \<leftarrow> store slm f; findNextMatchedEntry_loop slm (e_next fe) })"

definition removeFromLinkedList ::
  "('k, 'v) SortableLinkedMap \<Rightarrow> ref \<Rightarrow> ('k, 'v) SortableLinkedMap option" where
  "removeFromLinkedList slm entry =
     do {
       e \<leftarrow> store slm entry;
       let slm = (if Some entry = head slm then slm\<lparr>head := e_next e\<rparr> else slm);
       let slm = (if Some entry = tail slm then slm\<lparr>tail := e_pre e\<rparr> else slm);
       slm \<leftarrow> (case e_pre e of Some p \<Rightarrow> set_next slm p (e_next e) | None \<Rightarrow> Some slm);
       slm \<leftarrow> (case e_next e of Some n \<Rightarrow> set_pre slm n (e_pre e) | None \<Rightarrow> Some slm);
       if Some entry = firstMatchedEntry slm
       then do { n \<leftarrow> findNextMatchedEntry slm; Some (slm\<lparr>firstMatchedEntry := n\<rparr>) }
       else Some slm
     }"

text \<open>
  \<^verbatim>\<open>updateMatchedState\<close> is only called when \<open>matchFunc\<close> is not nil; calling a nil function
  does not return.
\<close>

definition updateMatchedState ::
  "('k, 'v) SortableLinkedMap \<Rightarrow> ref \<Rightarrow> ('k, 'v) SortableLinkedMap option" where
  "updateMatchedState slm updatedEntry =
     do {
       m \<leftarrow> matchFunc slm;
       ue \<leftarrow> store slm updatedEntry;
       slm \<leftarrow> set_isMatched slm updatedEntry (m (e_value ue));
       if m (e_value ue)
       then
         (case firstMatchedEntry slm of
            None \<Rightarrow> Some (slm\<lparr>firstMatchedEntry := Some updatedEntry\<rparr>)
          | Some f \<Rightarrow>
              (case compareFunc slm of
                 None \<Rightarrow> Some slm
               | Some cmp \<Rightarrow>
                   do {
                     ue \<leftarrow> store slm updatedEntry;
                     fe \<leftarrow> store slm f;
                     Some (if cmp (e_value ue) (e_value fe)
                           then slm\<lparr>firstMatchedEntry := Some updatedEntry\<rparr>
                           else slm)
                   }))
       else
         if Some updatedEntry = firstMatchedEntry slm
         then do { n \<leftarrow> findNextMatchedEntry slm; Some (slm\<lparr>firstMatchedEntry := n\<rparr>) }
         else Some slm
     }"

text \<open>\<^verbatim>\<open>Put\<close> returns the old value (nil for a new key) and the map.\<close>

definition Put ::
  "('k, 'v) SortableLinkedMap \<Rightarrow> 'k \<Rightarrow> 'v \<Rightarrow> ('v option \<times> ('k, 'v) SortableLinkedMap) option" where
  "Put slm key val =
     (case entries slm key of
        Some entry \<Rightarrow>
          do {
            e \<leftarrow> store slm entry;
            let oldValue = e_value e;
            slm \<leftarrow> set_value slm entry val;
            slm \<leftarrow> (if matchFunc slm \<noteq> None then updateMatchedState slm entry else Some slm);
            Some (Some oldValue, slm)
          }
      | None \<Rightarrow>
          do {
            let newEntry = allocated slm;
            let slm = slm\<lparr>store := (store slm)(newEntry \<mapsto>
                              \<lparr>e_key = key, e_value = val, e_pre = None, e_next = None,
                               e_isMatched = False\<rparr>),
                           allocated := allocated slm + 1\<rparr>;
            preEntry \<leftarrow> findPreEntry slm (tail slm) newEntry True;
            slm \<leftarrow> putIntoLinkedList slm preEntry newEntry;
            slm \<leftarrow> (if matchFunc slm \<noteq> None then updateMatchedState slm newEntry else Some slm);
            Some (None, slm\<lparr>entries := (entries slm)(key \<mapsto> newEntry)\<rparr>)
          })"

definition Remove ::
  "('k, 'v) SortableLinkedMap \<Rightarrow> 'k \<Rightarrow> ('v option \<times> ('k, 'v) SortableLinkedMap) option" where
  "Remove slm key =
     (case entries slm key of
        Some entry \<Rightarrow>
          do {
            slm \<leftarrow> removeFromLinkedList slm entry;
            let slm = slm\<lparr>entries := (entries slm)(key := None)\<rparr>;
            e \<leftarrow> store slm entry;
            Some (Some (e_value e), slm)
          }
      | None \<Rightarrow> Some (None, slm))"

definition Get :: "('k, 'v) SortableLinkedMap \<Rightarrow> 'k \<Rightarrow> 'v option option" where
  "Get slm key =
     (case entries slm key of
        Some entry \<Rightarrow> do { e \<leftarrow> store slm entry; Some (Some (e_value e)) }
      | None \<Rightarrow> Some None)"

text \<open>The loop of \<^verbatim>\<open>getEntryItems\<close> from the head, and the two functions that use it.\<close>

partial_function (option) getEntryItems_loop ::
  "('k, 'v) SortableLinkedMap \<Rightarrow> (('k, 'v) SortableLinkedMapEntry \<Rightarrow> 'a) \<Rightarrow> ref option
     \<Rightarrow> 'a list \<Rightarrow> 'a list option" where
  "getEntryItems_loop slm getItemFunc lookupEntry results =
     (case lookupEntry of
        Some l \<Rightarrow>
          do {
            le \<leftarrow> store slm l;
            getEntryItems_loop slm getItemFunc (e_next le) (results @ [getItemFunc le])
          }
      | None \<Rightarrow> Some results)"

declare getEntryItems_loop.simps [code]

definition getEntryItems ::
  "('k, 'v) SortableLinkedMap \<Rightarrow> (('k, 'v) SortableLinkedMapEntry \<Rightarrow> 'a) \<Rightarrow> 'a list option" where
  "getEntryItems slm getItemFunc = getEntryItems_loop slm getItemFunc (head slm) []"

definition Values :: "('k, 'v) SortableLinkedMap \<Rightarrow> 'v list option" where
  "Values slm = getEntryItems slm e_value"

definition Keys :: "('k, 'v) SortableLinkedMap \<Rightarrow> 'k list option" where
  "Keys slm = getEntryItems slm e_key"

text \<open>
  A map of integers under string keys, sorted ascending, whose match predicate holds for the
  values from 6 on.
\<close>

definition example_map :: "(string, int) SortableLinkedMap" where
  "example_map = NewSortableLinkedMap (Some (\<lambda>i j. i < j)) (Some (\<lambda>v. 6 \<le> v))"

section \<open>Properties of the partition names\<close>

lemma Index_bracketed:
  assumes "CHR '']'' \<notin> set r"
  shows "Index (''['' @ r @ '']'' @ n) CHR '']'' = int (length r) + 1"
proof -
  have "takeWhile (\<lambda>x. x \<noteq> CHR '']'') (r @ CHR '']'' # n) = r"
    using assms by (induction r) auto
  then show ?thesis
    by (simp add: Index_def)
qed

text \<open>
  Claim C9. Normalising a partition name and reading the parts back is a round trip:
  for an rmID without the byte \<open>]\<close> and a partition name that does not start with \<open>[\<close>,
  the rmID read from the normalised name is the rmID given, and the partition name read
  from it is the name given, or \<open>default\<close> when the name given is empty.
\<close>

theorem partition_name_roundtrip:
  assumes "CHR '']'' \<notin> set rmID" and "\<not> HasPrefix name ''[''"
  shows "GetRMIdFromPartitionName (GetNormalizedPartitionName name rmID) = rmID
       \<and> GetPartitionNameWithoutClusterID (GetNormalizedPartitionName name rmID)
           = (if name = [] then ''default'' else name)"
proof -
  define n where "n = (if name = [] then ''default'' else name)"
  have np: "\<not> HasPrefix n ''[''"
    using assms(2) by (simp add: n_def HasPrefix_def)
  have norm: "GetNormalizedPartitionName name rmID = ''['' @ rmID @ '']'' @ n"
    using np by (simp add: GetNormalizedPartitionName_def n_def Let_def)
  have idx: "Index (''['' @ rmID @ '']'' @ n) CHR '']'' = int (length rmID) + 1"
    using assms(1) by (rule Index_bracketed)
  have "GetRMIdFromPartitionName (''['' @ rmID @ '']'' @ n) = rmID"
    unfolding GetRMIdFromPartitionName_def Let_def idx by (simp add: slice_def)
  moreover have "GetPartitionNameWithoutClusterID (''['' @ rmID @ '']'' @ n) = n"
    unfolding GetPartitionNameWithoutClusterID_def Let_def idx by (simp add: nat_add_distrib)
  ultimately show ?thesis
    by (simp add: norm n_def)
qed

theorem partition_name_roundtrip_witness:
  "CHR '']'' \<notin> set ''rm-1'' \<and> \<not> HasPrefix '''' ''[''
   \<and> GetRMIdFromPartitionName (GetNormalizedPartitionName '''' ''rm-1'') = ''rm-1''
   \<and> GetPartitionNameWithoutClusterID (GetNormalizedPartitionName '''' ''rm-1'') = ''default''"
proof -
  have h1: "CHR '']'' \<notin> set ''rm-1''" by simp
  have h2: "\<not> HasPrefix '''' ''[''" by (simp add: HasPrefix_def)
  show ?thesis using h1 h2 partition_name_roundtrip [OF h1 h2] by simp
qed

section \<open>Properties of the application state machine\<close>

lemma State_String_inj: "applicationState_String s = applicationState_String t \<longleftrightarrow> s = t"
  by (cases s; cases t; simp)

lemma Event_String_inj: "applicationEvent_String e = applicationEvent_String d \<longleftrightarrow> e = d"
  by (cases e; cases d; simp)

lemma NewAppState_transitions:
  "transitions NewAppState (applicationEvent_String e, applicationState_String s)
     = map_option applicationState_String (spec_transition s e)"
  by (cases e; cases s;
      simp add: NewAppState_def NewFSM_def spec_transition_def State_String_inj Event_String_inj
           del: applicationState_String.simps applicationEvent_String.simps)

lemma event_known:
  "\<exists>ekey \<in> dom (transitions NewAppState). fst ekey = applicationEvent_String e"
  by (cases e;
      simp add: NewAppState_def NewFSM_def Event_String_inj
           del: applicationState_String.simps applicationEvent_String.simps)

text \<open>
  Claim C1. The application state machine fires exactly the transitions of the table: in
  state \<open>s\<close>, event \<open>e\<close> leaves the machine in the state the table gives for (s, e), and where
  the table has no row for (s, e) the state is unchanged and an error is returned.
\<close>

theorem app_state_transitions:
  "Event (app_in_state s) (applicationEvent_String e) =
     (case spec_transition s e of
        Some t \<Rightarrow> (if t = s then Some NoTransitionError else None, app_in_state t)
      | None \<Rightarrow> (Some (InvalidEventError (applicationEvent_String e) (applicationState_String s)),
                 app_in_state s))"
proof (cases "spec_transition s e")
  case None
  then show ?thesis
    using event_known [of e] NewAppState_transitions [of e s]
    by (simp add: Event_def app_in_state_def)
next
  case (Some t)
  then show ?thesis
    using NewAppState_transitions [of e s]
    by (auto simp add: Event_def app_in_state_def State_String_inj)
qed


theorem app_state_transitions_witness:
  "Event (app_in_state Accepted) ''RunApplication'' = (None, app_in_state Starting)
   \<and> Event (app_in_state Rejected) ''KillApplication''
       = (Some (InvalidEventError ''KillApplication'' ''Rejected''), app_in_state Rejected)"
  using app_state_transitions [of Accepted RunApplication]
        app_state_transitions [of Rejected KillApplication]
  by (simp add: spec_transition_def)

section \<open>Properties of the scheduling node\<close>

lemma example_node_new: "newSchedulingNode (Some example_nodeInfo) = Some example_node"
  by (simp add: newSchedulingNode_def example_node_def example_nodeInfo_def)

lemma isReservedForApp_loop_iff:
  "isReservedForApp_loop keys appID \<longleftrightarrow> (\<exists>key \<in> set keys. HasPrefix key appID)"
  by (induction keys) auto

lemma FitIn_example:
  "FitIn [''memory'' \<mapsto> a] (Add [''memory'' \<mapsto> b] NewResource) \<longleftrightarrow> b \<le> a"
  by (simp add: FitIn_def Add_def NewResource_def quantity_def dom_def)

lemma FitInNode_example:
  "FitInNode example_nodeInfo (ask_AllocatedResource (example_ask appID mem)) \<longleftrightarrow> mem \<le> 100"
  by (simp add: FitInNode_def FitIn_def example_nodeInfo_def example_ask_def quantity_def)

lemma reserve_example:
  "reserve example_node (Some appID) (Some (example_ask appID 10)) =
     ((True, None),
      example_node\<lparr>reservations :=
        [(appID @ ''|ask-1'', \<lparr>r_nodeID = None, r_appID = appID, r_askKey = ''ask-1''\<rparr>)]\<rparr>)"
  using FitInNode_example [of appID 10]
  by (simp add: reserve_def newReservation_def getKey_def)
     (simp add: example_node_def example_ask_def)

text \<open>
  Claim C6. \<^verbatim>\<open>preAllocateCheck\<close> returns true exactly when the node is schedulable, the
  requested resource is strictly greater than zero and the requested resource plus the
  allocating resource fits in the available resource (with preempting added in the preemption
  phase); the node is left as it was.
\<close>

theorem preAllocateCheck_iff:
  "preAllocateCheck sn res preemptionPhase =
     (IsSchedulable (nodeInfo sn) \<and> StrictlyGreaterThanZero res
        \<and> FitIn (if preemptionPhase
                  then Add (GetAvailableResource (nodeInfo sn)) (sn_preempting sn)
                  else GetAvailableResource (nodeInfo sn))
                 (Add res (sn_allocating sn)),
      sn)"
  by (simp add: preAllocateCheck_def Let_def getAllocatingResource_def)

theorem preAllocateCheck_iff_witness:
  "preAllocateCheck example_node [''memory'' \<mapsto> 20] False = (True, example_node)
   \<and> preAllocateCheck example_node [''memory'' \<mapsto> 21] False = (False, example_node)
   \<and> preAllocateCheck example_node [''memory'' \<mapsto> 0] True = (False, example_node)"
  using preAllocateCheck_iff [of example_node "[''memory'' \<mapsto> 20]" False]
        preAllocateCheck_iff [of example_node "[''memory'' \<mapsto> 21]" False]
        preAllocateCheck_iff [of example_node "[''memory'' \<mapsto> 0]" True]
        FitIn_example [of 20 20] FitIn_example [of 20 21]
  by (simp add: example_node_def example_nodeInfo_def IsSchedulable_def
        GetAvailableResource_def StrictlyGreaterThanZero_def quantity_def)

text \<open>
  Claim C7. When the proposed resource plus the allocating resource does not fit in the
  available resource (plus preempting in the preemption phase), \<^verbatim>\<open>allocateResource\<close> returns
  false and leaves the node unchanged; when it fits, it returns true and the allocating
  resource is the old one plus the proposed resource.
\<close>

theorem allocateResource_fits:
  "(\<not> FitIn (if preemptionPhase
              then Add (GetAvailableResource (nodeInfo sn)) (sn_preempting sn)
              else GetAvailableResource (nodeInfo sn))
             (Add res (sn_allocating sn))
      \<longrightarrow> allocateResource sn res preemptionPhase = (False, sn))
   \<and> (FitIn (if preemptionPhase
              then Add (GetAvailableResource (nodeInfo sn)) (sn_preempting sn)
              else GetAvailableResource (nodeInfo sn))
             (Add res (sn_allocating sn))
      \<longrightarrow> fst (allocateResource sn res preemptionPhase) = True
          \<and> sn_allocating (snd (allocateResource sn res preemptionPhase))
              = Add res (sn_allocating sn)
          \<and> (\<forall>k. quantity (sn_allocating (snd (allocateResource sn res preemptionPhase))) k
                  = quantity (sn_allocating sn) k + quantity res k))"
  by (simp add: allocateResource_def Let_def Add_def quantity_def)

theorem allocateResource_fits_witness:
  "allocateResource example_node [''memory'' \<mapsto> 21] False = (False, example_node)
   \<and> fst (allocateResource example_node [''memory'' \<mapsto> 20] False) = True
   \<and> sn_allocating (snd (allocateResource example_node [''memory'' \<mapsto> 20] False))
       = Add [''memory'' \<mapsto> 20] NewResource"
  using allocateResource_fits [of False example_node "[''memory'' \<mapsto> 21]"]
        allocateResource_fits [of False example_node "[''memory'' \<mapsto> 20]"]
        FitIn_example [of 20 20] FitIn_example [of 20 21]
  by (simp add: example_node_def example_nodeInfo_def GetAvailableResource_def)

text \<open>
  Claim C3, as stated: a node that holds a reservation for application A accepts a
  reservation from a different application B whose ask fits in the node's capacity. The
  node of the example holds the reservation of \<open>app-A\<close>; the call for \<open>app-B\<close> is refused.
\<close>

theorem reserve_second_app_counterexample:
  "\<not> (\<forall>sn r appB ask.
         r \<in> snd ` set (reservations sn) \<longrightarrow> r_appID r \<noteq> appB
         \<longrightarrow> FitInNode (nodeInfo sn) (ask_AllocatedResource ask)
         \<longrightarrow> fst (reserve sn (Some appB) (Some ask)) = (True, None)
             \<and> length (reservations (snd (reserve sn (Some appB) (Some ask))))
                 = length (reservations sn) + 1)"
proof
  let ?n = "snd (reserve example_node (Some ''app-A'') (Some (example_ask ''app-A'' 10)))"
  let ?r = "\<lparr>r_nodeID = None, r_appID = ''app-A'', r_askKey = ''ask-1''\<rparr>"
  assume claim: "\<forall>sn r appB ask.
         r \<in> snd ` set (reservations sn) \<longrightarrow> r_appID r \<noteq> appB
         \<longrightarrow> FitInNode (nodeInfo sn) (ask_AllocatedResource ask)
         \<longrightarrow> fst (reserve sn (Some appB) (Some ask)) = (True, None)
             \<and> length (reservations (snd (reserve sn (Some appB) (Some ask))))
                 = length (reservations sn) + 1"
  have n: "?n = example_node\<lparr>reservations := [(''app-A|ask-1'', ?r)]\<rparr>"
    by (simp add: reserve_example)
  have "?r \<in> snd ` set (reservations ?n)"
    by (simp add: n)
  moreover have "r_appID ?r \<noteq> ''app-B''"
    by simp
  moreover have "FitInNode (nodeInfo ?n) (ask_AllocatedResource (example_ask ''app-B'' 10))"
    unfolding n using FitInNode_example [of "''app-B''" 10] by (simp add: example_node_def)
  ultimately have "fst (reserve ?n (Some ''app-B'') (Some (example_ask ''app-B'' 10))) = (True, None)"
    using claim by blast
  then show False
    unfolding n by (simp add: reserve_def)
qed

text \<open>
  Claim C3, amended. A node holds at most one reservation: \<^verbatim>\<open>reserve\<close> on a node that holds
  a reservation (of any application) returns false with the error that the node is already
  reserved and leaves the node unchanged; it returns true exactly when the node holds no
  reservation, application and ask are not nil and the ask's resource fits in the node's
  capacity, and the node then holds this reservation alone. So a node with at most one
  reservation has at most one after the call.
\<close>

theorem reserve_only_unreserved_node:
  "(reservations sn \<noteq> []
      \<longrightarrow> reserve sn app ask = ((False, Some (NodeAlreadyReserved (sn_NodeID sn))), sn))
   \<and> (fst (fst (reserve sn app ask))
        \<longleftrightarrow> reservations sn = []
            \<and> (\<exists>appID a. app = Some appID \<and> ask = Some a
                  \<and> FitInNode (nodeInfo sn) (ask_AllocatedResource a)))
   \<and> (\<forall>appID a. fst (fst (reserve sn (Some appID) (Some a)))
        \<longrightarrow> reservations (snd (reserve sn (Some appID) (Some a)))
             = [(appID @ ''|'' @ ask_AllocationKey a,
                 \<lparr>r_nodeID = None, r_appID = appID, r_askKey = ask_AllocationKey a\<rparr>)])
   \<and> (length (reservations sn) \<le> 1
        \<longrightarrow> length (reservations (snd (reserve sn app ask))) \<le> 1)"
  by (cases app; cases ask)
     (auto simp add: reserve_def newReservation_def getKey_def)

theorem reserve_only_unreserved_node_witness:
  "reserve (snd (reserve example_node (Some ''app-A'') (Some (example_ask ''app-A'' 10))))
       (Some ''app-B'') (Some (example_ask ''app-B'' 10))
     = ((False, Some (NodeAlreadyReserved ''node-1'')),
        snd (reserve example_node (Some ''app-A'') (Some (example_ask ''app-A'' 10))))
   \<and> fst (fst (reserve example_node (Some ''app-A'') (Some (example_ask ''app-A'' 10))))
   \<and> reservations (snd (reserve example_node (Some ''app-A'') (Some (example_ask ''app-A'' 10))))
       = [(''app-A|ask-1'', \<lparr>r_nodeID = None, r_appID = ''app-A'', r_askKey = ''ask-1''\<rparr>)]"
  using reserve_only_unreserved_node
          [of "snd (reserve example_node (Some ''app-A'') (Some (example_ask ''app-A'' 10)))"
              "Some ''app-B''" "Some (example_ask ''app-B'' 10)"]
        reserve_only_unreserved_node
          [of example_node "Some ''app-A''" "Some (example_ask ''app-A'' 10)"]
        FitInNode_example [of "''app-A''" 10]
  by (simp add: reserve_example) (simp add: example_node_def example_ask_def)

text \<open>
  Claim C10. \<^verbatim>\<open>isReservedForApp\<close> is false for the empty application ID and otherwise true
  exactly when some reservation key of the node has the application ID as a prefix. So on the
  node whose only reservation is the one of application \<open>app-10\<close>, the answer for \<open>app-1\<close>
  is true although no reservation of the node belongs to \<open>app-1\<close>.
\<close>

theorem isReservedForApp_prefix:
  "(isReservedForApp sn appID
      \<longleftrightarrow> appID \<noteq> [] \<and> (\<exists>key \<in> fst ` set (reservations sn). HasPrefix key appID))
   \<and> map snd (reservations
         (snd (reserve example_node (Some ''app-10'') (Some (example_ask ''app-10'' 10)))))
       = [\<lparr>r_nodeID = None, r_appID = ''app-10'', r_askKey = ''ask-1''\<rparr>]
   \<and> isReservedForApp
         (snd (reserve example_node (Some ''app-10'') (Some (example_ask ''app-10'' 10))))
         ''app-1''"
  by (simp add: isReservedForApp_def isReservedForApp_loop_iff reserve_example HasPrefix_def)

theorem isReservedForApp_prefix_witness:
  "isReservedForApp
     (snd (reserve example_node (Some ''app-10'') (Some (example_ask ''app-10'' 10)))) ''app-1''
   \<and> \<not> isReservedForApp
     (snd (reserve example_node (Some ''app-10'') (Some (example_ask ''app-10'' 10)))) ''app-2''
   \<and> \<not> isReservedForApp
     (snd (reserve example_node (Some ''app-10'') (Some (example_ask ''app-10'' 10)))) []"
  using isReservedForApp_prefix
          [of "snd (reserve example_node (Some ''app-10'') (Some (example_ask ''app-10'' 10)))"
              "''app-1''"]
        isReservedForApp_prefix
          [of "snd (reserve example_node (Some ''app-10'') (Some (example_ask ''app-10'' 10)))"
              "''app-2''"]
        isReservedForApp_prefix
          [of "snd (reserve example_node (Some ''app-10'') (Some (example_ask ''app-10'' 10)))"
              "[]"]
  by (simp add: reserve_example HasPrefix_def)

section \<open>Properties of the configuration loader\<close>

text \<open>
  Claim C8 says that the checksum of an accepted byte array is its SHA-256 digest. The
  loader calls \<^verbatim>\<open>Sum(content)\<close> on a hash to which nothing was written: the checksum is the
  content itself followed by the digest of the empty input. A digest has 32 bytes, so for a
  content that is not empty the checksum is longer than a digest and differs from the digest
  of the content.
\<close>

theorem Checksum_is_content_and_empty_digest:
  assumes "unmarshal content = Inr conf" and "validate conf = None"
    and "\<And>x. length (digest x) = 32" and "content \<noteq> []"
  shows "\<exists>c. LoadSchedulerConfigFromByteArray unmarshal validate digest content = Inr c
             \<and> Checksum c = content @ digest []
             \<and> Checksum c \<noteq> digest content"
proof -
  let ?c = "conf\<lparr>Checksum := content @ digest []\<rparr>"
  have load: "LoadSchedulerConfigFromByteArray unmarshal validate digest content = Inr ?c"
    using assms(1,2)
    by (simp add: LoadSchedulerConfigFromByteArray_def hash_Sum_def sha256_New_def)
  have "length (Checksum ?c) = length content + 32"
    by (simp add: assms(3))
  then have len: "length (Checksum ?c) \<noteq> length (digest content)"
    using assms(3,4) by simp
  have "Checksum ?c \<noteq> digest content"
  proof
    assume "Checksum ?c = digest content"
    then have "length (Checksum ?c) = length (digest content)"
      by (rule arg_cong)
    with len show False
      by simp
  qed
  with load show ?thesis
    by simp
qed

theorem Checksum_is_content_and_empty_digest_witness:
  "\<exists>c. LoadSchedulerConfigFromByteArray
           (\<lambda>b. Inr \<lparr>Partitions = b, Checksum = []\<rparr> :: unit + byte list SchedulerConfig)
           (\<lambda>c. None) (\<lambda>x. replicate 32 0) [112, 97]
         = Inr c
       \<and> Checksum c = [112, 97] @ replicate 32 0
       \<and> Checksum c \<noteq> replicate 32 0"
  using Checksum_is_content_and_empty_digest
          [of "\<lambda>b. Inr \<lparr>Partitions = b, Checksum = []\<rparr> :: unit + byte list SchedulerConfig"
              "[112, 97]" "\<lparr>Partitions = [112, 97], Checksum = []\<rparr>"
              "\<lambda>c. None" "\<lambda>x. replicate 32 0"]
  by simp

section \<open>Properties of the application filters\<close>

text \<open>
  What the loop of \<^verbatim>\<open>StateAwareFilter\<close> does compute: the flag tells whether a Starting
  application was seen, the list holds every application with pending resources that is not
  Accepted, and the tracked application is an oldest Accepted one with pending resources as
  long as no Starting application was seen.
\<close>

lemma body_foundStarting:
  "foundStarting (StateAwareFilter_body app v)
     \<longleftrightarrow> foundStarting v \<or> CurrentState app = ''Starting''"
  by (simp add: StateAwareFilter_body_def Let_def)

lemma body_filteredApps:
  "filteredApps (StateAwareFilter_body app v) =
     filteredApps v @
       (if StrictlyGreaterThanZero (PendingResource app) \<and> CurrentState app \<noteq> ''Accepted''
        then [app] else [])"
  by (simp add: StateAwareFilter_body_def Let_def)

lemma body_acceptedApp:
  "acceptedApp (StateAwareFilter_body app v) =
     (if CurrentState app = ''Starting'' then None
      else if StrictlyGreaterThanZero (PendingResource app) \<and> CurrentState app = ''Accepted''
              \<and> \<not> foundStarting v
              \<and> (case acceptedApp v of
                    None \<Rightarrow> True
                  | Some acc \<Rightarrow> SubmissionTime app < SubmissionTime acc)
      then Some app
      else acceptedApp v)"
  by (auto simp add: StateAwareFilter_body_def Let_def After_def split: option.splits)

lemma fold_foundStarting:
  "foundStarting (fold StateAwareFilter_body xs v)
     \<longleftrightarrow> foundStarting v \<or> (\<exists>a \<in> set xs. CurrentState a = ''Starting'')"
  by (induction xs arbitrary: v) (auto simp add: body_foundStarting)

lemma fold_filteredApps:
  "filteredApps (fold StateAwareFilter_body xs v) =
     filteredApps v @
       filter (\<lambda>a. StrictlyGreaterThanZero (PendingResource a) \<and> CurrentState a \<noteq> ''Accepted'') xs"
  by (induction xs arbitrary: v) (auto simp add: body_filteredApps)

lemma fold_acceptedApp:
  "case acceptedApp (fold StateAwareFilter_body xs
          \<lparr>filteredApps = [], acceptedApp = None, foundStarting = False\<rparr>) of
     None \<Rightarrow>
       (\<exists>a \<in> set xs. CurrentState a = ''Starting'')
       \<or> (\<forall>a \<in> set xs. \<not> (CurrentState a = ''Accepted''
                                \<and> StrictlyGreaterThanZero (PendingResource a)))
   | Some acc \<Rightarrow>
       acc \<in> set xs \<and> CurrentState acc = ''Accepted''
       \<and> StrictlyGreaterThanZero (PendingResource acc)
       \<and> (\<forall>a \<in> set xs. CurrentState a \<noteq> ''Starting'')
       \<and> (\<forall>a \<in> set xs. CurrentState a = ''Accepted''
                            \<and> StrictlyGreaterThanZero (PendingResource a)
                          \<longrightarrow> SubmissionTime acc \<le> SubmissionTime a)"
proof (induction xs rule: rev_induct)
  case Nil
  then show ?case by simp
next
  case (snoc x xs)
  have fs: "foundStarting (fold StateAwareFilter_body xs
              \<lparr>filteredApps = [], acceptedApp = None, foundStarting = False\<rparr>)
              \<longleftrightarrow> (\<exists>a \<in> set xs. CurrentState a = ''Starting'')"
    by (simp add: fold_foundStarting)
  show ?case
    using snoc
    by (auto simp add: body_acceptedApp fs split: option.splits)
qed

lemma StateAwareFilter_result:
  "\<exists>accepted.
     StateAwareFilter apps =
       filter (\<lambda>a. StrictlyGreaterThanZero (PendingResource a) \<and> CurrentState a \<noteq> ''Accepted'')
         (map snd apps) @ accepted
     \<and> length accepted \<le> 1
     \<and> (\<forall>acc \<in> set accepted.
           acc \<in> snd ` set apps \<and> CurrentState acc = ''Accepted''
           \<and> StrictlyGreaterThanZero (PendingResource acc)
           \<and> (\<forall>a \<in> snd ` set apps. CurrentState a \<noteq> ''Starting'')
           \<and> (\<forall>a \<in> snd ` set apps. CurrentState a = ''Accepted''
                                        \<and> StrictlyGreaterThanZero (PendingResource a)
                                      \<longrightarrow> SubmissionTime acc \<le> SubmissionTime a))
     \<and> (accepted = [] \<longrightarrow>
           (\<exists>a \<in> snd ` set apps. CurrentState a = ''Starting'')
           \<or> (\<forall>a \<in> snd ` set apps. \<not> (CurrentState a = ''Accepted''
                                           \<and> StrictlyGreaterThanZero (PendingResource a))))"
proof -
  let ?v = "fold StateAwareFilter_body (map snd apps)
              \<lparr>filteredApps = [], acceptedApp = None, foundStarting = False\<rparr>"
  let ?acc = "case acceptedApp ?v of None \<Rightarrow> [] | Some acc \<Rightarrow> [acc]"
  have "StateAwareFilter apps =
       filter (\<lambda>a. StrictlyGreaterThanZero (PendingResource a) \<and> CurrentState a \<noteq> ''Accepted'')
         (map snd apps) @ ?acc"
    by (simp add: StateAwareFilter_def Let_def fold_filteredApps split: option.split)
  moreover have "length ?acc \<le> 1"
    by (simp split: option.split)
  ultimately show ?thesis
    using fold_acceptedApp [of "map snd apps"]
    by (intro exI [of _ ?acc]) (auto split: option.splits)
qed

text \<open>
  Claim C4 says that \<^verbatim>\<open>StateAwareFilter\<close> returns at most one candidate that is not in the
  Running state. For a map of two applications that are both in state Starting and have
  pending resources, the filter returns both, in whichever order the loop visits them.
\<close>

theorem StateAwareFilter_two_starting:
  "StateAwareFilter [(''app-1'', example_app ''app-1'' ''Starting'' 1),
                     (''app-2'', example_app ''app-2'' ''Starting'' 2)]
     = [example_app ''app-1'' ''Starting'' 1, example_app ''app-2'' ''Starting'' 2]
   \<and> StateAwareFilter [(''app-2'', example_app ''app-2'' ''Starting'' 2),
                       (''app-1'', example_app ''app-1'' ''Starting'' 1)]
     = [example_app ''app-2'' ''Starting'' 2, example_app ''app-1'' ''Starting'' 1]
   \<and> length (filter (\<lambda>app. CurrentState app \<noteq> ''Running'')
         (StateAwareFilter [(''app-1'', example_app ''app-1'' ''Starting'' 1),
                            (''app-2'', example_app ''app-2'' ''Starting'' 2)])) = 2"
  by (simp add: StateAwareFilter_def StateAwareFilter_body_def example_app_def
        StrictlyGreaterThanZero_def quantity_def)

section \<open>Properties of the partition\<close>

lemma quantity_SubErrorNegative:
  "quantity (fst (SubErrorNegative left right)) k = max 0 (quantity left k - quantity right k)"
  by (simp add: SubErrorNegative_def Sub_def quantity_def Let_def)

lemma sq_allocating_dec:
  "sq_allocating (sq_decAllocatingResource q delta) = fst (SubErrorNegative (sq_allocating q) delta)"
  by (cases q) simp

lemma confirmAllocation_False_unfold:
  assumes "applications psc (ap_ApplicationID p) = Some app"
    and "nodes psc (ap_NodeID p) = Some node"
  shows "confirmAllocation psc p False =
     (let delta = ap_AllocatedResource p;
          app1 = (if IsZero delta then app
                  else app\<lparr>sa_allocating := fst (SubErrorNegative (sa_allocating app) delta),
                          queue := sq_decAllocatingResource (queue app) delta\<rparr>);
          node1 = (if IsZero delta then node else decAllocatingResource node delta)
      in (case requests app (ap_AllocationKey p) of
            None \<Rightarrow> Some (AppError (AskNotFound (ap_AllocationKey p)))
          | Some ask \<Rightarrow> None,
          psc\<lparr>applications := (applications psc)(ap_ApplicationID p \<mapsto>
                  snd (updateAskRepeat app1 (ap_AllocationKey p) 1)),
              nodes := (nodes psc)(ap_NodeID p \<mapsto> node1)\<rparr>))"
  using assms
  by (cases "requests app (ap_AllocationKey p)")
     (simp_all add: confirmAllocation_def Let_def updateAskRepeat_def
        sa_decAllocatingResource_def)

lemma example_partition_app:
  "applications (example_partition mem asks) (ap_ApplicationID example_proposal) =
     Some \<lparr>sa_ApplicationID = ''app-1'', sa_allocating = [''memory'' \<mapsto> mem],
           sa_pending = NewResource, requests = asks, queue = example_queue mem\<rparr>"
  by (simp add: example_partition_def example_proposal_def)

lemma example_partition_node:
  "nodes (example_partition mem asks) (ap_NodeID example_proposal) =
     Some (example_node\<lparr>sn_allocating := [''memory'' \<mapsto> mem]\<rparr>)"
  by (simp add: example_partition_def example_proposal_def)

lemma example_proposal_not_zero: "\<not> IsZero (ap_AllocatedResource example_proposal)"
  by (simp add: example_proposal_def IsZero_def quantity_def)

text \<open>
  Claim C2, as stated: for every proposal whose application and node exist, a rejection
  decreases the three allocating resources by the proposal's resource and raises the ask's
  pending repeat by 1. In the partition of the example the ask of the proposal has been
  removed and the allocating resources (memory 3) are smaller than the proposal's resource
  (memory 5): no ask is there to be raised, and the node's allocating memory becomes 0, not
  3 - 5.
\<close>

theorem confirmAllocation_reject_counterexample:
  "\<not> (\<forall>psc p app node.
         applications psc (ap_ApplicationID p) = Some app \<longrightarrow>
         nodes psc (ap_NodeID p) = Some node \<longrightarrow>
         (\<exists>app' ask ask'.
            applications (snd (confirmAllocation psc p False)) (ap_ApplicationID p) = Some app'
            \<and> requests app (ap_AllocationKey p) = Some ask
            \<and> requests app' (ap_AllocationKey p) = Some ask'
            \<and> pendingRepeatAsk ask' = pendingRepeatAsk ask + 1))
   \<and> \<not> (\<forall>psc p app node.
         applications psc (ap_ApplicationID p) = Some app \<longrightarrow>
         nodes psc (ap_NodeID p) = Some node \<longrightarrow>
         \<not> IsZero (ap_AllocatedResource p) \<longrightarrow>
         (\<exists>node'.
            nodes (snd (confirmAllocation psc p False)) (ap_NodeID p) = Some node'
            \<and> (\<forall>k. quantity (sn_allocating node') k
                     = quantity (sn_allocating node) k - quantity (ap_AllocatedResource p) k)))"
proof (intro conjI notI)
  assume "\<forall>psc p app node.
         applications psc (ap_ApplicationID p) = Some app \<longrightarrow>
         nodes psc (ap_NodeID p) = Some node \<longrightarrow>
         (\<exists>app' ask ask'.
            applications (snd (confirmAllocation psc p False)) (ap_ApplicationID p) = Some app'
            \<and> requests app (ap_AllocationKey p) = Some ask
            \<and> requests app' (ap_AllocationKey p) = Some ask'
            \<and> pendingRepeatAsk ask' = pendingRepeatAsk ask + 1)"
  with example_partition_app [of 3 Map.empty] example_partition_node [of 3 Map.empty]
  have "\<exists>ask. requests
          \<lparr>sa_ApplicationID = ''app-1'', sa_allocating = [''memory'' \<mapsto> 3],
           sa_pending = NewResource, requests = Map.empty, queue = example_queue 3\<rparr>
          (ap_AllocationKey example_proposal) = Some ask"
    by blast
  then show False
    by simp
next
  let ?psc = "example_partition 3 Map.empty"
  let ?node = "example_node\<lparr>sn_allocating := [''memory'' \<mapsto> 3]\<rparr>"
  assume "\<forall>psc p app node.
         applications psc (ap_ApplicationID p) = Some app \<longrightarrow>
         nodes psc (ap_NodeID p) = Some node \<longrightarrow>
         \<not> IsZero (ap_AllocatedResource p) \<longrightarrow>
         (\<exists>node'.
            nodes (snd (confirmAllocation psc p False)) (ap_NodeID p) = Some node'
            \<and> (\<forall>k. quantity (sn_allocating node') k
                     = quantity (sn_allocating node) k - quantity (ap_AllocatedResource p) k))"
  then obtain node' where
    n1: "nodes (snd (confirmAllocation ?psc example_proposal False)) (ap_NodeID example_proposal)
           = Some node'"
    and n2: "\<forall>k. quantity (sn_allocating node') k
               = quantity (sn_allocating ?node) k
                 - quantity (ap_AllocatedResource example_proposal) k"
    using example_partition_app [of 3 Map.empty] example_partition_node [of 3 Map.empty]
      example_proposal_not_zero
    by blast
  have "node' = decAllocatingResource ?node (ap_AllocatedResource example_proposal)"
    using n1 example_proposal_not_zero
    by (simp add: confirmAllocation_False_unfold [OF example_partition_app example_partition_node]
          Let_def)
  then have "quantity (sn_allocating node') ''memory'' = 0"
    by (simp add: decAllocatingResource_def quantity_SubErrorNegative)
       (simp add: example_proposal_def quantity_def)
  moreover have "quantity (sn_allocating node') ''memory'' = - 2"
    using n2 by (simp add: example_proposal_def quantity_def)
  ultimately show False
    by simp
qed

text \<open>
  Claim C2, amended. For every proposal whose application and node exist in the partition,
  a rejection stores the application and the node back with these changes: when the
  proposal's resource is not zero, each quantity of the allocating resource of the
  application, of its queue and of the node is decreased by the proposal's quantity and
  clamped at zero (so it is decreased by exactly the proposal's quantity where that does
  not exceed it); when the ask of the proposal is still in the application's ledger, its
  pending repeat is raised by exactly 1 and no error is returned; when the ask has been
  removed, the ledger is unchanged and an error is returned.
\<close>

theorem confirmAllocation_reject_restores:
  assumes "applications psc (ap_ApplicationID p) = Some app"
    and "nodes psc (ap_NodeID p) = Some node"
  shows "\<exists>app' node'.
     snd (confirmAllocation psc p False)
       = psc\<lparr>applications := (applications psc)(ap_ApplicationID p \<mapsto> app'),
             nodes := (nodes psc)(ap_NodeID p \<mapsto> node')\<rparr>
     \<and> (\<not> IsZero (ap_AllocatedResource p) \<longrightarrow>
          (\<forall>k. quantity (sa_allocating app') k
                = max 0 (quantity (sa_allocating app) k - quantity (ap_AllocatedResource p) k))
        \<and> (\<forall>k. quantity (sq_allocating (queue app')) k
                = max 0 (quantity (sq_allocating (queue app)) k
                         - quantity (ap_AllocatedResource p) k))
        \<and> (\<forall>k. quantity (sn_allocating node') k
                = max 0 (quantity (sn_allocating node) k - quantity (ap_AllocatedResource p) k)))
     \<and> (IsZero (ap_AllocatedResource p) \<longrightarrow>
          sa_allocating app' = sa_allocating app \<and> queue app' = queue app \<and> node' = node)
     \<and> (case requests app (ap_AllocationKey p) of
          Some ask \<Rightarrow>
            requests app' (ap_AllocationKey p)
              = Some (ask\<lparr>pendingRepeatAsk := pendingRepeatAsk ask + 1\<rparr>)
            \<and> fst (confirmAllocation psc p False) = None
        | None \<Rightarrow>
            requests app' = requests app
            \<and> fst (confirmAllocation psc p False)
                = Some (AppError (AskNotFound (ap_AllocationKey p))))"
proof -
  define delta where "delta = ap_AllocatedResource p"
  define app1 where "app1 =
    (if IsZero delta then app
     else app\<lparr>sa_allocating := fst (SubErrorNegative (sa_allocating app) delta),
             queue := sq_decAllocatingResource (queue app) delta\<rparr>)"
  define node1 where "node1 = (if IsZero delta then node else decAllocatingResource node delta)"
  define app2 where "app2 = snd (updateAskRepeat app1 (ap_AllocationKey p) 1)"
  have run: "confirmAllocation psc p False =
     (case requests app (ap_AllocationKey p) of
        None \<Rightarrow> Some (AppError (AskNotFound (ap_AllocationKey p)))
      | Some ask \<Rightarrow> None,
      psc\<lparr>applications := (applications psc)(ap_ApplicationID p \<mapsto> app2),
          nodes := (nodes psc)(ap_NodeID p \<mapsto> node1)\<rparr>)"
    by (simp add: confirmAllocation_False_unfold [OF assms] Let_def app2_def app1_def node1_def
          delta_def)
  have req1: "requests app1 = requests app"
    by (simp add: app1_def)
  have alloc2: "sa_allocating app2 = sa_allocating app1" and queue2: "queue app2 = queue app1"
    by (simp_all add: app2_def updateAskRepeat_def Let_def split: option.split)
  have a: "\<not> IsZero delta \<longrightarrow>
          (\<forall>k. quantity (sa_allocating app2) k
                = max 0 (quantity (sa_allocating app) k - quantity delta k))
        \<and> (\<forall>k. quantity (sq_allocating (queue app2)) k
                = max 0 (quantity (sq_allocating (queue app)) k - quantity delta k))
        \<and> (\<forall>k. quantity (sn_allocating node1) k
                = max 0 (quantity (sn_allocating node) k - quantity delta k))"
    by (simp add: alloc2 queue2 app1_def node1_def decAllocatingResource_def
          sq_allocating_dec quantity_SubErrorNegative)
  have b: "IsZero delta \<longrightarrow>
          sa_allocating app2 = sa_allocating app \<and> queue app2 = queue app \<and> node1 = node"
    by (simp add: alloc2 queue2 app1_def node1_def)
  have c: "case requests app (ap_AllocationKey p) of
          Some ask \<Rightarrow>
            requests app2 (ap_AllocationKey p)
              = Some (ask\<lparr>pendingRepeatAsk := pendingRepeatAsk ask + 1\<rparr>)
            \<and> fst (confirmAllocation psc p False) = None
        | None \<Rightarrow>
            requests app2 = requests app
            \<and> fst (confirmAllocation psc p False)
                = Some (AppError (AskNotFound (ap_AllocationKey p)))"
    by (simp add: run app2_def updateAskRepeat_def req1 Let_def split: option.split)
  show ?thesis
    using run a b c unfolding delta_def by (intro exI [of _ app2] exI [of _ node1]) simp
qed

theorem confirmAllocation_reject_restores_witness:
  "\<exists>app' node'.
     snd (confirmAllocation (example_partition 5 [''ask-1'' \<mapsto> example_ask ''app-1'' 5])
            example_proposal False)
       = (example_partition 5 [''ask-1'' \<mapsto> example_ask ''app-1'' 5])
           \<lparr>applications :=
              (applications (example_partition 5 [''ask-1'' \<mapsto> example_ask ''app-1'' 5]))
                (''app-1'' \<mapsto> app'),
            nodes :=
              (nodes (example_partition 5 [''ask-1'' \<mapsto> example_ask ''app-1'' 5]))
                (''node-1'' \<mapsto> node')\<rparr>
     \<and> quantity (sa_allocating app') ''memory'' = 0
     \<and> quantity (sq_allocating (queue app')) ''memory'' = 0
     \<and> quantity (sn_allocating node') ''memory'' = 0
     \<and> requests app' ''ask-1'' = Some ((example_ask ''app-1'' 5)\<lparr>pendingRepeatAsk := 2\<rparr>)
     \<and> fst (confirmAllocation (example_partition 5 [''ask-1'' \<mapsto> example_ask ''app-1'' 5])
              example_proposal False) = None"
proof -
  let ?psc = "example_partition 5 [''ask-1'' \<mapsto> example_ask ''app-1'' 5]"
  obtain app' node' where
    r: "snd (confirmAllocation ?psc example_proposal False)
          = ?psc\<lparr>applications :=
                   (applications ?psc)(ap_ApplicationID example_proposal \<mapsto> app'),
                 nodes := (nodes ?psc)(ap_NodeID example_proposal \<mapsto> node')\<rparr>"
    and d: "\<not> IsZero (ap_AllocatedResource example_proposal) \<longrightarrow>
          (\<forall>k. quantity (sa_allocating app') k
                = max 0 (quantity [''memory'' \<mapsto> 5] k
                         - quantity (ap_AllocatedResource example_proposal) k))
        \<and> (\<forall>k. quantity (sq_allocating (queue app')) k
                = max 0 (quantity (sq_allocating (example_queue 5)) k
                         - quantity (ap_AllocatedResource example_proposal) k))
        \<and> (\<forall>k. quantity (sn_allocating node') k
                = max 0 (quantity [''memory'' \<mapsto> 5] k
                         - quantity (ap_AllocatedResource example_proposal) k))"
    and a: "requests app' (ap_AllocationKey example_proposal)
              = Some ((example_ask ''app-1'' 5)\<lparr>pendingRepeatAsk :=
                        pendingRepeatAsk (example_ask ''app-1'' 5) + 1\<rparr>)
            \<and> fst (confirmAllocation ?psc example_proposal False) = None"
    using confirmAllocation_reject_restores [OF example_partition_app example_partition_node,
            of 5 "[''ask-1'' \<mapsto> example_ask ''app-1'' 5]"]
    by (auto simp add: example_proposal_def)
  from d example_proposal_not_zero
  have "quantity (sa_allocating app') ''memory'' = 0"
    and "quantity (sq_allocating (queue app')) ''memory'' = 0"
    and "quantity (sn_allocating node') ''memory'' = 0"
    by (simp_all add: example_proposal_def example_queue_def quantity_def)
  with r a show ?thesis
    by (intro exI [of _ app'] exI [of _ node'])
       (simp add: example_proposal_def example_ask_def)
qed

section \<open>Properties of the sortable linked map\<close>

text \<open>
  With new keys only, the chain is kept in ascending order and the cursor is on the first
  matching entry of the chain, also after that entry is removed.
\<close>

lemma example_map_new_keys:
  "do {
     (_, m) \<leftarrow> Put example_map ''k1'' 7;
     (_, m) \<leftarrow> Put m ''k2'' 5;
     (_, m) \<leftarrow> Put m ''k3'' 6;
     keys \<leftarrow> Keys m;
     vals \<leftarrow> Values m;
     first \<leftarrow> GetFirstMatched m;
     (old, m) \<leftarrow> Remove m ''k3'';
     keys' \<leftarrow> Keys m;
     first' \<leftarrow> GetFirstMatched m;
     Some (keys, vals, first, old, keys', first')
   } = Some ([''k2'', ''k3'', ''k1''], [5, 6, 7], Some (''k3'', 6),
             Some 6, [''k2'', ''k1''], Some (''k1'', 7))"
  by code_simp

text \<open>
  Claim C5 says that after every sequence of \<^verbatim>\<open>Put\<close> and \<^verbatim>\<open>Remove\<close>, also with a \<^verbatim>\<open>Put\<close>
  on a key that is present, \<^verbatim>\<open>GetFirstMatched\<close> returns the first entry in the order of the
  chain whose value satisfies the match predicate. A \<^verbatim>\<open>Put\<close> on a present key changes the
  value where the entry stands, and \<^verbatim>\<open>updateMatchedState\<close> then compares values instead of
  positions. In the first case the entry of \<open>k1\<close> stands before the one of \<open>k2\<close> and comes to
  match with the value 9, which does not compare before 7: the cursor stays on \<open>k2\<close>. In the
  second case the entry of \<open>k2\<close> stands behind the one of \<open>k1\<close> and gets the value 6, which
  compares before 7: the cursor moves to \<open>k2\<close> although \<open>k1\<close> still matches. Each result
  lists the keys and the values in chain order, the first matching entry of that order, and
  what \<^verbatim>\<open>GetFirstMatched\<close> returns.
\<close>

theorem GetFirstMatched_after_update_in_place:
  "do {
     (_, m) \<leftarrow> Put example_map ''k1'' 5;
     (_, m) \<leftarrow> Put m ''k2'' 7;
     (_, m) \<leftarrow> Put m ''k1'' 9;
     keys \<leftarrow> Keys m;
     vals \<leftarrow> Values m;
     first \<leftarrow> GetFirstMatched m;
     Some (keys, vals, find (\<lambda>(k, v). 6 \<le> v) (zip keys vals), first)
   } = Some ([''k1'', ''k2''], [9, 7], Some (''k1'', 9), Some (''k2'', 7))
   \<and> do {
     (_, m) \<leftarrow> Put example_map ''k1'' 7;
     (_, m) \<leftarrow> Put m ''k2'' 8;
     (_, m) \<leftarrow> Put m ''k2'' 6;
     keys \<leftarrow> Keys m;
     vals \<leftarrow> Values m;
     first \<leftarrow> GetFirstMatched m;
     Some (keys, vals, find (\<lambda>(k, v). 6 \<le> v) (zip keys vals), first)
   } = Some ([''k1'', ''k2''], [7, 6], Some (''k1'', 7), Some (''k2'', 6))"
  by code_simp

end
